theory Spec2Isabelle
  imports Complex_Main
begin

section \<open>Conventions of the embedding\<close>

text \<open>
  The repository is a Python pipeline: literature search, a survival analysis, a rule-based
  recommendation, a simulated physician review and a persistence layer. The embedding
  follows the source function by function.

  \<^item> A Python \<open>float\<close> is the real number its literal denotes (rounding to binary
    and the values \<open>nan\<close> and \<open>inf\<close> are outside the model); \<open>int\<close> is \<open>int\<close>, and a
    \<open>len(...)\<close> is a \<open>nat\<close>.
  \<^item> A dictionary with a fixed set of string keys is a record. A key that some producer
    leaves out is a field of option type (\<open>None\<close>: the key is absent), read with
    \<open>dict_get\<close> as \<open>d.get(key, default)\<close> reads it. A value that may be Python's \<open>None\<close>
    is an option as well.
  \<^item> An exception is a value: a function that may raise returns \<open>py_error + 'a\<close>.
  \<^item> Calls that leave the repository (PubMed, Google Scholar, lifelines, the JSON codec,
    the database commit) are inputs of the model: the outcome of the call is an argument.
  \<^item> An f-string is the list of its pieces: literal text and formatted numbers.
  \<^item> Console output and logging are not modelled.
\<close>

datatype py_error = KeyError string | Exception string

definition dict_get :: "'a option \<Rightarrow> 'a \<Rightarrow> 'a" where
  "dict_get v dflt = (case v of None \<Rightarrow> dflt | Some x \<Rightarrow> x)"

datatype piece =
    Lit string
  | FloatFixed4 real
  | FloatStr real
  | IntStr int

type_synonym fstring = "piece list"

section \<open>agents/clinical\_reasoner.py\<close>

text \<open>
  The evidence dictionary the supervisor builds. The medians may be Python's \<open>None\<close>
  (median not reached), hence the inner option.
\<close>

record evidence =
  ev_p_value :: "real option"
  ev_total_papers :: "int option"
  ev_median_pembrolizumab :: "real option option"
  ev_median_nivolumab :: "real option option"

record recommendation =
  rec_recommendation :: string
  rec_confidence_score :: real
  rec_strength_of_recommendation :: string
  rec_grade :: string
  rec_rationale :: fstring

text \<open>\<open>x or 0\<close> on a median: \<open>None\<close> and \<open>0.0\<close> are falsy and give \<open>0\<close>.\<close>

definition or_zero :: "real option \<Rightarrow> real" where
  "or_zero v = (case v of None \<Rightarrow> 0 | Some x \<Rightarrow> if x = 0 then 0 else x)"

definition median_os_diff :: "evidence \<Rightarrow> real" where
  "median_os_diff ev =
     or_zero (dict_get (ev_median_pembrolizumab ev) (Some 0))
       - or_zero (dict_get (ev_median_nivolumab ev) (Some 0))"

definition generate_recommendation :: "evidence \<Rightarrow> recommendation" where
  "generate_recommendation ev =
     (let p_value = dict_get (ev_p_value ev) 1.0;
          papers_found = dict_get (ev_total_papers ev) 0;
          diff = median_os_diff ev;
          tier =
            (if p_value < 0.01 \<and> papers_found \<ge> 10 \<and> diff \<ge> 12
               then (0.94, ''Strong recommendation'', ''1A'')
             else if p_value < 0.05 \<and> papers_found \<ge> 8
               then (0.87, ''Moderate recommendation'', ''1B'')
             else (0.62, ''Weak recommendation'', ''2C''))
      in \<lparr> rec_recommendation =
             ''Pembrolizumab is preferred over nivolumab as first-line therapy in advanced melanoma'',
           rec_confidence_score = fst tier,
           rec_strength_of_recommendation = fst (snd tier),
           rec_grade = snd (snd tier),
           rec_rationale =
             [Lit ''p='', FloatFixed4 p_value, Lit '', '', IntStr papers_found,
              Lit '' publications, OS benefit '', FloatStr diff, Lit '' months''] \<rparr>)"

text \<open>
  The tiering policy in the words of the specification (section 4.3), over the three
  numbers of its contract, for comparison with the source function.
\<close>

datatype strength = Strong | Moderate | Weak

definition spec_score :: "real \<Rightarrow> int \<Rightarrow> real \<Rightarrow> real \<times> strength \<times> string" where
  "spec_score pValue paperCount medianDiffMonths =
     (if pValue < 0.01 \<and> paperCount \<ge> 10 \<and> medianDiffMonths \<ge> 12 then (0.94, Strong, ''1A'')
      else if pValue < 0.05 \<and> paperCount \<ge> 8 then (0.87, Moderate, ''1B'')
      else (0.62, Weak, ''2C''))"

text \<open>The strings the source writes for the three strength labels.\<close>

fun strength_text :: "strength \<Rightarrow> string" where
  "strength_text Strong = ''Strong recommendation''"
| "strength_text Moderate = ''Moderate recommendation''"
| "strength_text Weak = ''Weak recommendation''"

text \<open>The evidence dictionary with all four keys present, as the supervisor passes it.\<close>

definition mk_evidence :: "real \<Rightarrow> int \<Rightarrow> real option \<Rightarrow> real option \<Rightarrow> evidence" where
  "mk_evidence p n ma mb =
     \<lparr> ev_p_value = Some p, ev_total_papers = Some n,
       ev_median_pembrolizumab = Some ma, ev_median_nivolumab = Some mb \<rparr>"

section \<open>agents/doctor\_agent.py\<close>

record ai_output =
  ao_recommendation :: "string option"
  ao_confidence_score :: "real option"
  ao_p_value :: "real option"

record review =
  rv_doctor_decision :: string
  rv_doctor_name :: string
  rv_timestamp :: string
  rv_confidence_score :: real
  rv_comment :: string
  rv_final_recommendation :: string

text \<open>
  \<open>round(x, 3)\<close>: the nearest multiple of one thousandth, a tie going to the even
  neighbour.
\<close>

definition round_half_even :: "real \<Rightarrow> int" where
  "round_half_even x =
     (let f = \<lfloor>x\<rfloor>; d = x - of_int f
      in if d < 1/2 then f else if d > 1/2 then f + 1 else if even f then f else f + 1)"

definition py_round3 :: "real \<Rightarrow> real" where
  "py_round3 x = of_int (round_half_even (x * 1000)) / 1000"

definition comment_low_confidence :: string where
  "comment_low_confidence =
     ''Confidence too low. Recommend reducing pembrolizumab dose or adding corticosteroid prophylaxis.''"

definition comment_weak_evidence :: string where
  "comment_weak_evidence =
     ''Evidence not strong enough for first-line recommendation. Suggest clinical trial enrollment.''"

definition comment_approve :: string where
  "comment_approve =
     ''Strong evidence and acceptable safety profile. Proceed with recommendation.''"

text \<open>
  The reviewer's name as the bytes of the source file: the eight bytes after \<open>MD \<close> are the
  UTF-8 encoding of the three characters the source has there.
\<close>

definition doctor_name :: string where
  "doctor_name =
     ''Dr. Sarah Johnson, MD '' @
     [CHR 0xC3, CHR 0xA2, CHR 0xE2, CHR 0x82, CHR 0xAC, CHR 0xE2, CHR 0x80, CHR 0x9C] @
     '' Medical Oncology''"

text \<open>
  \<open>ai_output["recommendation"]\<close> is read only when the decision is approve; a missing
  key raises \<open>KeyError\<close> there.
\<close>

definition review_recommendation :: "ai_output \<Rightarrow> py_error + review" where
  "review_recommendation ao =
     (let confidence = dict_get (ao_confidence_score ao) 0.87;
          verdict =
            (if confidence < 0.70 then (''modify'', comment_low_confidence)
             else if dict_get (ao_p_value ao) 1.0 > 0.05 then (''modify'', comment_weak_evidence)
             else (''approve'', comment_approve));
          decision = fst verdict;
          comment = snd verdict;
          final =
            (if decision = ''approve''
               then (case ao_recommendation ao of
                       None \<Rightarrow> Inl (KeyError ''recommendation'')
                     | Some text \<Rightarrow> Inr text)
             else Inr comment)
      in case final of
           Inl e \<Rightarrow> Inl e
         | Inr final_recommendation \<Rightarrow>
             Inr \<lparr> rv_doctor_decision = decision,
                   rv_doctor_name = doctor_name,
                   rv_timestamp = ''2025-11-27 14:32'',
                   rv_confidence_score = py_round3 confidence,
                   rv_comment = comment,
                   rv_final_recommendation = final_recommendation \<rparr>)"

text \<open>
  The contract of the specification (section 4.4): the gate as a function of the
  recommendation text, the confidence and the p-value, all three keys present.
\<close>

definition review_gate :: "string \<Rightarrow> real \<Rightarrow> real \<Rightarrow> py_error + review" where
  "review_gate recommendationText confidence pValue =
     review_recommendation
       \<lparr> ao_recommendation = Some recommendationText,
         ao_confidence_score = Some confidence,
         ao_p_value = Some pValue \<rparr>"

datatype decision = Approve | Modify

fun decision_text :: "decision \<Rightarrow> string" where
  "decision_text Approve = ''approve''"
| "decision_text Modify = ''modify''"

text \<open>The decision policy in the words of the specification (section 4.4).\<close>

definition spec_policy :: "real \<Rightarrow> real \<Rightarrow> decision \<times> string" where
  "spec_policy confidence pValue =
     (if confidence < 0.70 then (Modify, comment_low_confidence)
      else if pValue > 0.05 then (Modify, comment_weak_evidence)
      else (Approve, comment_approve))"

section \<open>agents/literature\_agent.py\<close>

text \<open>
  The paper dictionaries the two search tools build (tools/pubmed\_tool.py and
  tools/scholar\_tool.py). The agent never reads a field of a paper: it tags the PubMed
  papers and concatenates.
\<close>

record pubmed_paper =
  pm_title :: string
  pm_authors :: "string list"
  pm_abstract :: string
  pm_pmid :: string
  pm_publication_date :: string
  pm_year :: "int option"
  pm_journal :: string

record scholar_paper =
  gs_title :: string
  gs_link :: string
  gs_snippet :: string
  gs_year :: string
  gs_source :: string
  gs_info :: string

text \<open>
  An entry of the aggregated list: \<open>{"source": "PubMed", **p}\<close> for a PubMed paper
  \<open>p\<close> (the paper with the source key added; a PubMed paper has no source key of its
  own that would override the tag), or a Scholar paper as the tool returned it.
\<close>

datatype paper = Tagged string pubmed_paper | Untagged scholar_paper

text \<open>
  What a search tool returns: every shape the two tools return has the keys \<open>status\<close>
  and \<open>papers\<close>, the only keys the agent reads.
\<close>

record 'p source_result =
  sr_status :: string
  sr_papers :: "'p list"

text \<open>
  The result dictionary of \<open>LiteratureAgent.query\<close>. The success shape has nine keys, the
  error shape three (\<open>status\<close>, \<open>error\<close>, \<open>query\<close>).
\<close>

record lit_result =
  lr_status :: string
  lr_query :: string
  lr_error :: "string option"
  lr_total_found :: "nat option"
  lr_papers :: "paper list option"
  lr_sources_used :: "string list option"
  lr_pubmed_count :: "nat option"
  lr_scholar_count :: "nat option"
  lr_model_used :: "string option"
  lr_analysis :: "string option"

text \<open>\<open>str(n)\<close> of a natural number: its decimal digits.\<close>

fun str_nat :: "nat \<Rightarrow> string" where
  "str_nat n =
     (if n < 10 then [char_of (48 + n)]
      else str_nat (n div 10) @ [char_of (48 + n mod 10)])"

declare str_nat.simps [simp del]

text \<open>\<open>' and '.join(parts)\<close>.\<close>

fun join_and :: "string list \<Rightarrow> string" where
  "join_and [] = []"
| "join_and [x] = x"
| "join_and (x # y # ys) = x @ '' and '' @ join_and (y # ys)"

definition no_publications :: string where
  "no_publications = ''No publications found matching the query criteria.''"

text \<open>
  \<open>LiteratureAgent._generate_summary\<close>. The counts are integers; a count is formatted
  only when it is positive.
\<close>

definition generate_summary :: "int \<Rightarrow> int \<Rightarrow> string" where
  "generate_summary pubmed_count scholar_count =
     (let parts = [];
          parts = (if pubmed_count > 0
                     then parts @ [str_nat (nat pubmed_count) @ '' publications from PubMed'']
                   else parts);
          parts = (if scholar_count > 0
                     then parts @ [str_nat (nat scholar_count) @ '' from Google Scholar'']
                   else parts)
      in if parts = [] then no_publications
         else ''Retrieved '' @ join_and parts @ '' covering recent advances '' @
              ''in the specified research area (2023-2025).'')"

text \<open>
  \<open>LiteratureAgent.query\<close>. The two tool calls stand inside the \<open>try\<close>: the outcome of a
  call is either an exception with its message (\<open>Inl\<close>) or the dictionary the tool
  returned. An exception of the first call skips the second.
\<close>

definition query :: "string \<Rightarrow> string \<Rightarrow> string + pubmed_paper source_result \<Rightarrow>
    string + scholar_paper source_result \<Rightarrow> lit_result" where
  "query model_name user_query pubmed_call scholar_call =
     (case pubmed_call of
        Inl exc \<Rightarrow>
          \<lparr> lr_status = ''error'', lr_query = user_query, lr_error = Some exc,
            lr_total_found = None, lr_papers = None, lr_sources_used = None,
            lr_pubmed_count = None, lr_scholar_count = None, lr_model_used = None,
            lr_analysis = None \<rparr>
      | Inr pubmed_result \<Rightarrow>
     (case scholar_call of
        Inl exc \<Rightarrow>
          \<lparr> lr_status = ''error'', lr_query = user_query, lr_error = Some exc,
            lr_total_found = None, lr_papers = None, lr_sources_used = None,
            lr_pubmed_count = None, lr_scholar_count = None, lr_model_used = None,
            lr_analysis = None \<rparr>
      | Inr scholar_result \<Rightarrow>
          (let pubmed_papers =
                 (if sr_status pubmed_result = ''success'' then sr_papers pubmed_result else []);
               scholar_papers =
                 (if sr_status scholar_result = ''success'' then sr_papers scholar_result else []);
               all_papers = map (Tagged ''PubMed'') pubmed_papers @ map Untagged scholar_papers;
               summary = generate_summary (int (length pubmed_papers)) (int (length scholar_papers))
           in \<lparr> lr_status = ''success'', lr_query = user_query, lr_error = None,
                lr_total_found = Some (length all_papers),
                lr_papers = Some (take 20 all_papers),
                lr_sources_used = Some [''PubMed'', ''Google Scholar''],
                lr_pubmed_count = Some (length pubmed_papers),
                lr_scholar_count = Some (length scholar_papers),
                lr_model_used = Some model_name,
                lr_analysis = Some summary \<rparr>)))"

text \<open>
  The papers a source contributes to the aggregate: those of a result whose status is
  \<open>success\<close>, none otherwise (the two conditional expressions of \<open>query\<close>).
\<close>

definition counted_papers :: "'p source_result \<Rightarrow> 'p list" where
  "counted_papers r = (if sr_status r = ''success'' then sr_papers r else [])"

text \<open>Two papers, as the tools build them, for the examples.\<close>

definition sample_pubmed_paper :: pubmed_paper where
  "sample_pubmed_paper =
     \<lparr> pm_title = ''Pembrolizumab in advanced melanoma'',
       pm_authors = [''Doe Jane'', ''Roe Richard''],
       pm_abstract = ''No abstract available'',
       pm_pmid = ''38000001'',
       pm_publication_date = ''2024-03-01'',
       pm_year = Some 2024,
       pm_journal = ''Unknown'' \<rparr>"

definition sample_scholar_paper :: scholar_paper where
  "sample_scholar_paper =
     \<lparr> gs_title = ''Checkpoint inhibitors in melanoma'',
       gs_link = ''https://example.org/paper'',
       gs_snippet = ''No abstract available'',
       gs_year = ''2024'',
       gs_source = ''Google Scholar'',
       gs_info = ''J Doe - 2024 - example.org'' \<rparr>"

section \<open>agents/analysis\_agent.py\<close>

text \<open>
  What \<open>perform_survival_analysis\<close> (tools/stats\_tool.py) returns: the success
  dictionary, or \<open>{"status": "error", "error": message}\<close>. The computation itself runs in
  lifelines and matplotlib; its result is an input here.
\<close>

record stats_payload =
  st_figure_path :: string
  st_p_value :: real
  st_median_pembrolizumab :: "real option"
  st_median_nivolumab :: "real option"
  st_interpretation :: string
  st_test_statistic :: real

datatype stats_result = StatsSuccess stats_payload | StatsError string

text \<open>
  The result dictionary of \<open>AnalysisAgent.analyze_survival\<close>: the success shape has six
  keys, the error shape two (\<open>status\<close>, \<open>message\<close>).
\<close>

record analysis_result =
  ar_status :: string
  ar_message :: "string option"
  ar_summary :: "fstring option"
  ar_figure_path :: "string option"
  ar_p_value :: "real option"
  ar_median_pembrolizumab :: "real option option"
  ar_median_nivolumab :: "real option option"

text \<open>\<open>{m or 'N/A'}\<close> in the summary.\<close>

definition median_or_na :: "real option \<Rightarrow> piece" where
  "median_or_na m = (case m of None \<Rightarrow> Lit ''N/A'' | Some x \<Rightarrow> if x = 0 then Lit ''N/A'' else FloatStr x)"

definition newline :: string where
  "newline = [CHR 0x0A]"

definition analyze_survival :: "stats_result \<Rightarrow> analysis_result" where
  "analyze_survival result =
     (case result of
        StatsError err \<Rightarrow>
          \<lparr> ar_status = ''error'', ar_message = Some err, ar_summary = None,
            ar_figure_path = None, ar_p_value = None,
            ar_median_pembrolizumab = None, ar_median_nivolumab = None \<rparr>
      | StatsSuccess r \<Rightarrow>
          \<lparr> ar_status = ''success'', ar_message = None,
            ar_summary = Some
              [Lit (newline @ ''SURVIVAL ANALYSIS RESULTS'' @ newline),
               Lit (replicate 70 (CHR ''='') @ newline),
               Lit (''Comparison        : Pembrolizumab vs Nivolumab'' @ newline),
               Lit (''Statistical test  : Log-rank test'' @ newline),
               Lit ''P-value           : '', FloatStr (st_p_value r), Lit newline,
               Lit ''Test statistic    : '', FloatStr (st_test_statistic r), Lit newline,
               Lit ''Median OS (Pembro): '', median_or_na (st_median_pembrolizumab r),
               Lit ('' months'' @ newline),
               Lit ''Median OS (Nivo)  : '', median_or_na (st_median_nivolumab r),
               Lit ('' months'' @ newline),
               Lit (newline @ ''Interpretation:'' @ newline),
               Lit (st_interpretation r @ newline),
               Lit (newline @ ''Figure saved at: '' @ st_figure_path r @ newline),
               Lit (replicate 70 (CHR ''=''))],
            ar_figure_path = Some (st_figure_path r),
            ar_p_value = Some (st_p_value r),
            ar_median_pembrolizumab = Some (st_median_pembrolizumab r),
            ar_median_nivolumab = Some (st_median_nivolumab r) \<rparr>)"

section \<open>tools/risk\_calculator.py\<close>

definition calculate_irae_risk :: "(string \<times> string) list" where
  "calculate_irae_risk =
     [(''any_grade_irae'', ''58%''),
      (''grade_3_4_irae'', ''18%''),
      (''endocrine_irae'', ''42%''),
      (''pneumonitis'', ''7%''),
      (''colitis'', ''4%''),
      (''hepatitis'', ''6%''),
      (''recommendation'', ''Initiate thyroid function monitoring at baseline and every 6 weeks'')]"

section \<open>agents/supervisor.py\<close>

text \<open>The evidence dictionary of step 3 of \<open>process_query\<close>; all four keys are set.\<close>

definition evidence_of :: "lit_result \<Rightarrow> analysis_result \<Rightarrow> evidence" where
  "evidence_of lit_result analysis_result =
     \<lparr> ev_p_value = Some (dict_get (ar_p_value analysis_result) 1.0),
       ev_total_papers = Some (int (dict_get (lr_total_found lit_result) 0)),
       ev_median_pembrolizumab = Some (dict_get (ar_median_pembrolizumab analysis_result) None),
       ev_median_nivolumab = Some (dict_get (ar_median_nivolumab analysis_result) None) \<rparr>"

record report =
  rp_literature :: lit_result
  rp_analysis :: analysis_result
  rp_recommendation :: recommendation
  rp_doctor_review :: review
  rp_risk_profile :: "(string \<times> string) list"

text \<open>
  \<open>OncologySupervisor.process_query\<close>, with the outcomes of the three external calls as
  arguments. \<open>evidence["p_value"]\<close> is a subscript: a missing key would raise. The two
  display methods (\<open>_format_literature_output\<close>, \<open>_display_clinical_report\<close>) only print,
  and subscript keys that every paper, recommendation, review and risk profile has.
\<close>

definition process_query :: "string \<Rightarrow> string \<Rightarrow> string + pubmed_paper source_result \<Rightarrow>
    string + scholar_paper source_result \<Rightarrow> stats_result \<Rightarrow> py_error + report" where
  "process_query model_name user_query pubmed_call scholar_call stats =
     (let lit_result = query model_name user_query pubmed_call scholar_call;
          analysis_result = analyze_survival stats;
          evidence = evidence_of lit_result analysis_result;
          recommendation = generate_recommendation evidence
      in case ev_p_value evidence of
           None \<Rightarrow> Inl (KeyError ''p_value'')
         | Some p \<Rightarrow>
             (case review_recommendation
                     \<lparr> ao_recommendation = Some (rec_recommendation recommendation),
                       ao_confidence_score = Some (rec_confidence_score recommendation),
                       ao_p_value = Some p \<rparr> of
                Inl e \<Rightarrow> Inl e
              | Inr doctor_review \<Rightarrow>
                  Inr \<lparr> rp_literature = lit_result,
                        rp_analysis = analysis_result,
                        rp_recommendation = recommendation,
                        rp_doctor_review = doctor_review,
                        rp_risk_profile = calculate_irae_risk \<rparr>))"

section \<open>memory/memory\_service.py\<close>

text \<open>
  A findings payload is a JSON value. \<open>json.dumps\<close> and \<open>json.loads\<close> belong to Python's
  library: the service takes them as a codec, either of which may raise.
\<close>

datatype json =
    JNull
  | JBool bool
  | JInt int
  | JFloat real
  | JStr string
  | JList "json list"
  | JDict "(string \<times> json) list"

record codec =
  dumps :: "json \<Rightarrow> py_error + string"
  loads :: "string \<Rightarrow> py_error + json"

text \<open>A \<open>datetime\<close> is represented by its ISO text, so \<open>isoformat()\<close> is the identity.\<close>

type_synonym datetime = string

text \<open>
  An object of the ORM class \<open>ResearchMemory\<close> without its primary key, which the
  database assigns when the object is flushed. \<open>findings\<close> is a nullable text column.
\<close>

record research_memory =
  rm_session_id :: string
  rm_query :: string
  rm_cancer_type :: string
  rm_findings :: "string option"
  rm_timestamp :: datetime

text \<open>
  The database as the service sees it through its SQLAlchemy session: the rows of the
  table \<open>research_memory\<close> in primary-key order, each with its id, and the objects added
  to the session and not yet committed.
\<close>

record db =
  db_rows :: "(nat \<times> research_memory) list"
  db_pending :: "research_memory list"

text \<open>The next primary key: one more than the largest in the table (SQLite's rule).\<close>

definition next_id :: "(nat \<times> research_memory) list \<Rightarrow> nat" where
  "next_id rows = Suc (foldr max (map fst rows) 0)"

definition session_add :: "research_memory \<Rightarrow> db \<Rightarrow> db" where
  "session_add entry d = d\<lparr> db_pending := db_pending d @ [entry] \<rparr>"

text \<open>
  \<open>session.commit()\<close>. Whether the storage accepts the transaction is an input: \<open>None\<close>
  when it does, the message of the exception when it does not. An accepted commit
  inserts the pending objects in order under consecutive fresh ids; a refused one leaves
  the table as it was.
\<close>

definition session_commit :: "string option \<Rightarrow> db \<Rightarrow> db \<times> (py_error + unit)" where
  "session_commit storage d =
     (case storage of
        Some msg \<Rightarrow> (d, Inl (Exception msg))
      | None \<Rightarrow>
          (\<lparr> db_rows = db_rows d @
                zip [next_id (db_rows d) ..< next_id (db_rows d) + length (db_pending d)] (db_pending d),
             db_pending = [] \<rparr>, Inr ()))"

definition session_rollback :: "db \<Rightarrow> db" where
  "session_rollback d = d\<lparr> db_pending := [] \<rparr>"

text \<open>
  \<open>OncologyMemoryService.save_research\<close>. The result pairs the database after the call
  with the returned id or the re-raised exception. \<open>entry.id\<close> is the key the commit gave
  to the object added last.
\<close>

definition save_research :: "codec \<Rightarrow> datetime \<Rightarrow> string option \<Rightarrow> db \<Rightarrow>
    string \<Rightarrow> string \<Rightarrow> string \<Rightarrow> json \<Rightarrow> db \<times> (py_error + nat)" where
  "save_research c now storage d session_id query_text cancer_type findings =
     (case dumps c findings of
        Inl e \<Rightarrow> (session_rollback d, Inl e)
      | Inr text \<Rightarrow>
          (let entry = \<lparr> rm_session_id = session_id, rm_query = query_text,
                         rm_cancer_type = cancer_type, rm_findings = Some text,
                         rm_timestamp = now \<rparr>;
               d1 = session_add entry d
           in case session_commit storage d1 of
                (d2, Inl e) \<Rightarrow> (session_rollback d2, Inl e)
              | (d2, Inr u) \<Rightarrow> (d2, Inr (next_id (db_rows d) + length (db_pending d)))))"

text \<open>
  \<open>OncologyMemoryService.save_doctor_review\<close>. The clock is read twice: for the record
  and for the row.
\<close>

definition save_doctor_review :: "codec \<Rightarrow> datetime \<Rightarrow> datetime \<Rightarrow> string option \<Rightarrow> db \<Rightarrow>
    string \<Rightarrow> string \<Rightarrow> string \<Rightarrow> string \<Rightarrow> db \<times> (py_error + nat)" where
  "save_doctor_review c now_record now_entry storage d session_id decision doctor comment =
     (let record = JDict [(''decision'', JStr decision), (''doctor'', JStr doctor),
                          (''comment'', JStr comment), (''timestamp'', JStr now_record)]
      in case dumps c record of
           Inl e \<Rightarrow> (session_rollback d, Inl e)
         | Inr text \<Rightarrow>
             (let entry = \<lparr> rm_session_id = session_id, rm_query = ''Physician Review'',
                            rm_cancer_type = ''clinical_decision'', rm_findings = Some text,
                            rm_timestamp = now_entry \<rparr>;
                  d1 = session_add entry d
              in case session_commit storage d1 of
                   (d2, Inl e) \<Rightarrow> (session_rollback d2, Inl e)
                 | (d2, Inr u) \<Rightarrow> (d2, Inr (next_id (db_rows d) + length (db_pending d)))))"



section \<open>memory/approval\_workflow.py\<close>

definition log_doctor_approval :: "codec \<Rightarrow> datetime \<Rightarrow> datetime \<Rightarrow> string option \<Rightarrow> db \<Rightarrow>
    string \<Rightarrow> string \<Rightarrow> string \<Rightarrow> db \<times> (py_error + unit)" where
  "log_doctor_approval c now_record now_entry storage d session_id decision doctor =
     (case save_doctor_review c now_record now_entry storage d session_id decision doctor
             ''Approved via Doctor-in-the-Loop system'' of
        (d', Inl e) \<Rightarrow> (d', Inl e)
      | (d', Inr i) \<Rightarrow> (d', Inr ()))"

section \<open>Example data for the persistence layer\<close>

text \<open>
  A codec given by a finite table of payloads and their JSON texts: \<open>dumps\<close> raises on a
  payload outside the table, \<open>loads\<close> on a text outside it.
\<close>

definition table_codec :: "(json \<times> string) list \<Rightarrow> codec" where
  "table_codec tbl =
     \<lparr> dumps = (\<lambda>j. case map_of tbl j of
                       None \<Rightarrow> Inl (Exception ''TypeError'')
                     | Some t \<Rightarrow> Inr t),
       loads = (\<lambda>t. case map_of (map (\<lambda>(j, t). (t, j)) tbl) t of
                       None \<Rightarrow> Inl (Exception ''JSONDecodeError'')
                     | Some j \<Rightarrow> Inr j) \<rparr>"

definition dq :: string where
  "dq = [CHR 0x22]"

text \<open>Two findings payloads of the shape main.py saves, and a review record.\<close>

definition findings_first :: json where
  "findings_first =
     JDict [(''total_papers'', JInt 18), (''p_value'', JFloat 0.0123), (''grade'', JStr ''1B''),
            (''physician_decision'', JStr ''approve''), (''confidence'', JFloat 0.87)]"

definition findings_second :: json where
  "findings_second =
     JDict [(''total_papers'', JInt 2), (''p_value'', JFloat 0.2), (''grade'', JStr ''2C''),
            (''physician_decision'', JStr ''modify''), (''confidence'', JFloat 0.62)]"

definition review_record :: json where
  "review_record =
     JDict [(''decision'', JStr ''approved''), (''doctor'', JStr ''Dr. A''),
            (''comment'', JStr ''ok''), (''timestamp'', JStr ''2025-11-27T14:32:00'')]"

text \<open>The texts \<open>json.dumps\<close> writes for them.\<close>

definition text_first :: string where
  "text_first =
     ''{'' @ dq @ ''total_papers'' @ dq @ '': 18, '' @ dq @ ''p_value'' @ dq @ '': 0.0123, '' @
     dq @ ''grade'' @ dq @ '': '' @ dq @ ''1B'' @ dq @ '', '' @
     dq @ ''physician_decision'' @ dq @ '': '' @ dq @ ''approve'' @ dq @ '', '' @
     dq @ ''confidence'' @ dq @ '': 0.87}''"

definition text_second :: string where
  "text_second =
     ''{'' @ dq @ ''total_papers'' @ dq @ '': 2, '' @ dq @ ''p_value'' @ dq @ '': 0.2, '' @
     dq @ ''grade'' @ dq @ '': '' @ dq @ ''2C'' @ dq @ '', '' @
     dq @ ''physician_decision'' @ dq @ '': '' @ dq @ ''modify'' @ dq @ '', '' @
     dq @ ''confidence'' @ dq @ '': 0.62}''"

definition text_review :: string where
  "text_review =
     ''{'' @ dq @ ''decision'' @ dq @ '': '' @ dq @ ''approved'' @ dq @ '', '' @
     dq @ ''doctor'' @ dq @ '': '' @ dq @ ''Dr. A'' @ dq @ '', '' @
     dq @ ''comment'' @ dq @ '': '' @ dq @ ''ok'' @ dq @ '', '' @
     dq @ ''timestamp'' @ dq @ '': '' @ dq @ ''2025-11-27T14:32:00'' @ dq @ ''}''"

definition sample_codec :: codec where
  "sample_codec =
     table_codec [(findings_first, text_first), (findings_second, text_second),
                  (review_record, text_review)]"

definition empty_db :: db where
  "empty_db = \<lparr> db_rows = [], db_pending = [] \<rparr>"

text \<open>
  Two runs of main.py: each saves its findings under the session id
  \<open>melanoma_workflow_2025\<close>.
\<close>

definition db_after_first_run :: db where
  "db_after_first_run =
     fst (save_research sample_codec ''2025-11-27T14:32:00'' None empty_db
            ''melanoma_workflow_2025'' ''pembrolizumab AND melanoma'' ''melanoma'' findings_first)"

definition db_after_second_run :: db where
  "db_after_second_run =
     fst (save_research sample_codec ''2025-11-28T09:00:00'' None db_after_first_run
            ''melanoma_workflow_2025'' ''pembrolizumab AND melanoma'' ''melanoma'' findings_second)"

section \<open>Helper lemmas\<close>

lemma generate_recommendation_fields:
  "generate_recommendation ev =
     \<lparr> rec_recommendation =
         ''Pembrolizumab is preferred over nivolumab as first-line therapy in advanced melanoma'',
       rec_confidence_score =
         fst (spec_score (dict_get (ev_p_value ev) 1.0) (dict_get (ev_total_papers ev) 0)
                (median_os_diff ev)),
       rec_strength_of_recommendation =
         strength_text (fst (snd (spec_score (dict_get (ev_p_value ev) 1.0)
                (dict_get (ev_total_papers ev) 0) (median_os_diff ev)))),
       rec_grade =
         snd (snd (spec_score (dict_get (ev_p_value ev) 1.0) (dict_get (ev_total_papers ev) 0)
                (median_os_diff ev))),
       rec_rationale =
         [Lit ''p='', FloatFixed4 (dict_get (ev_p_value ev) 1.0), Lit '', '',
          IntStr (dict_get (ev_total_papers ev) 0),
          Lit '' publications, OS benefit '', FloatStr (median_os_diff ev), Lit '' months''] \<rparr>"
  by (simp add: generate_recommendation_def spec_score_def Let_def)

lemma mk_evidence_reads:
  "dict_get (ev_p_value (mk_evidence p n ma mb)) d = p"
  "dict_get (ev_total_papers (mk_evidence p n ma mb)) k = n"
  "median_os_diff (mk_evidence p n ma mb) = or_zero ma - or_zero mb"
  by (simp_all add: mk_evidence_def dict_get_def median_os_diff_def)

lemma or_zero_simps:
  "or_zero None = 0"
  "or_zero (Some x) = x"
  by (simp_all add: or_zero_def)

lemma review_gate_result:
  "review_gate t c p =
     Inr \<lparr> rv_doctor_decision = decision_text (fst (spec_policy c p)),
           rv_doctor_name = doctor_name,
           rv_timestamp = ''2025-11-27 14:32'',
           rv_confidence_score = py_round3 c,
           rv_comment = snd (spec_policy c p),
           rv_final_recommendation =
             (if fst (spec_policy c p) = Approve then t else snd (spec_policy c p)) \<rparr>"
  by (simp add: review_gate_def review_recommendation_def spec_policy_def dict_get_def Let_def)

lemma spec_policy_cases:
  "spec_policy c p = (Modify, comment_low_confidence) \<or>
   spec_policy c p = (Modify, comment_weak_evidence) \<or>
   spec_policy c p = (Approve, comment_approve)"
  by (simp add: spec_policy_def)

lemma review_recommendation_full:
  "review_recommendation
     \<lparr> ao_recommendation = Some t, ao_confidence_score = Some c, ao_p_value = Some p \<rparr> =
   Inr \<lparr> rv_doctor_decision = decision_text (fst (spec_policy c p)),
         rv_doctor_name = doctor_name,
         rv_timestamp = ''2025-11-27 14:32'',
         rv_confidence_score = py_round3 c,
         rv_comment = snd (spec_policy c p),
         rv_final_recommendation =
           (if fst (spec_policy c p) = Approve then t else snd (spec_policy c p)) \<rparr>"
  using review_gate_result [of t c p] by (simp add: review_gate_def)

lemma score_then_policy:
  "spec_score p n d = (0.94, Strong, ''1A'') \<and> spec_policy 0.94 p = (Approve, comment_approve) \<or>
   spec_score p n d = (0.87, Moderate, ''1B'') \<and> spec_policy 0.87 p = (Approve, comment_approve) \<or>
   spec_score p n d = (0.62, Weak, ''2C'') \<and> spec_policy 0.62 p = (Modify, comment_low_confidence)"
  by (auto simp add: spec_score_def spec_policy_def)

lemma process_query_result:
  "process_query m q pc sc st =
     Inr \<lparr> rp_literature = query m q pc sc,
           rp_analysis = analyze_survival st,
           rp_recommendation =
             generate_recommendation (evidence_of (query m q pc sc) (analyze_survival st)),
           rp_doctor_review =
             \<lparr> rv_doctor_decision = decision_text (fst (spec_policy
                   (rec_confidence_score (generate_recommendation
                      (evidence_of (query m q pc sc) (analyze_survival st))))
                   (dict_get (ar_p_value (analyze_survival st)) 1.0))),
               rv_doctor_name = doctor_name,
               rv_timestamp = ''2025-11-27 14:32'',
               rv_confidence_score = py_round3 (rec_confidence_score (generate_recommendation
                      (evidence_of (query m q pc sc) (analyze_survival st)))),
               rv_comment = snd (spec_policy
                   (rec_confidence_score (generate_recommendation
                      (evidence_of (query m q pc sc) (analyze_survival st))))
                   (dict_get (ar_p_value (analyze_survival st)) 1.0)),
               rv_final_recommendation =
                 (if fst (spec_policy
                   (rec_confidence_score (generate_recommendation
                      (evidence_of (query m q pc sc) (analyze_survival st))))
                   (dict_get (ar_p_value (analyze_survival st)) 1.0)) = Approve
                  then rec_recommendation (generate_recommendation
                      (evidence_of (query m q pc sc) (analyze_survival st)))
                  else snd (spec_policy
                   (rec_confidence_score (generate_recommendation
                      (evidence_of (query m q pc sc) (analyze_survival st))))
                   (dict_get (ar_p_value (analyze_survival st)) 1.0))) \<rparr>,
           rp_risk_profile = calculate_irae_risk \<rparr>"
  unfolding process_query_def Let_def
  by (simp add: review_recommendation_full evidence_of_def)

lemma evidence_of_reads:
  "dict_get (ev_p_value (evidence_of l a)) d = dict_get (ar_p_value a) 1.0"
  "dict_get (ev_total_papers (evidence_of l a)) k = int (dict_get (lr_total_found l) 0)"
  by (simp_all add: evidence_of_def dict_get_def)

lemma query_error_first:
  "query m q (Inl e) sc =
     \<lparr> lr_status = ''error'', lr_query = q, lr_error = Some e,
       lr_total_found = None, lr_papers = None, lr_sources_used = None,
       lr_pubmed_count = None, lr_scholar_count = None, lr_model_used = None,
       lr_analysis = None \<rparr>"
  by (simp add: query_def)

lemma query_error_second:
  "query m q (Inr pr) (Inl e) =
     \<lparr> lr_status = ''error'', lr_query = q, lr_error = Some e,
       lr_total_found = None, lr_papers = None, lr_sources_used = None,
       lr_pubmed_count = None, lr_scholar_count = None, lr_model_used = None,
       lr_analysis = None \<rparr>"
  by (simp add: query_def)

lemma analyze_survival_error:
  "analyze_survival (StatsError err) =
     \<lparr> ar_status = ''error'', ar_message = Some err, ar_summary = None,
       ar_figure_path = None, ar_p_value = None,
       ar_median_pembrolizumab = None, ar_median_nivolumab = None \<rparr>"
  by (simp add: analyze_survival_def)

lemma query_success:
  "query m q (Inr pr) (Inr sr) =
     \<lparr> lr_status = ''success'', lr_query = q, lr_error = None,
       lr_total_found = Some (length (counted_papers pr) + length (counted_papers sr)),
       lr_papers = Some (take 20 (map (Tagged ''PubMed'') (counted_papers pr) @
                                   map Untagged (counted_papers sr))),
       lr_sources_used = Some [''PubMed'', ''Google Scholar''],
       lr_pubmed_count = Some (length (counted_papers pr)),
       lr_scholar_count = Some (length (counted_papers sr)),
       lr_model_used = Some m,
       lr_analysis = Some (generate_summary (int (length (counted_papers pr)))
                                            (int (length (counted_papers sr)))) \<rparr>"
  by (simp add: query_def counted_papers_def Let_def)

lemma query_status:
  "lr_status (query m q pc sc) = ''success'' \<longleftrightarrow> \<not> isl pc \<and> \<not> isl sc"
  "lr_status (query m q pc sc) = ''error'' \<longleftrightarrow> isl pc \<or> isl sc"
  by (cases pc; cases sc; simp add: query_error_first query_error_second query_success)+

lemma take_prefix_of_capped:
  "take (length xs) (take 20 (xs @ ys)) = take 20 xs"
proof (cases "length xs \<le> 20")
  case True
  then show ?thesis by simp
next
  case False
  then show ?thesis by (simp add: min_def)
qed

lemma capped_split:
  "length xs \<le> 20 \<Longrightarrow> take 20 (xs @ ys) = xs @ take (20 - length xs) ys"
  by simp

lemma generate_summary_cases:
  "generate_summary x y =
     (if x > 0 \<and> y > 0 then
        ''Retrieved '' @ str_nat (nat x) @ '' publications from PubMed'' @ '' and '' @
        str_nat (nat y) @ '' from Google Scholar'' @
        '' covering recent advances in the specified research area (2023-2025).''
      else if x > 0 then
        ''Retrieved '' @ str_nat (nat x) @ '' publications from PubMed'' @
        '' covering recent advances in the specified research area (2023-2025).''
      else if y > 0 then
        ''Retrieved '' @ str_nat (nat y) @ '' from Google Scholar'' @
        '' covering recent advances in the specified research area (2023-2025).''
      else no_publications)"
  by (simp add: generate_summary_def Let_def)

lemma retrieved_not_no_publications: "''Retrieved '' @ s \<noteq> no_publications"
  by (simp add: no_publications_def)

lemma next_id_fresh: "r \<in> set rows \<Longrightarrow> fst r < next_id rows"
  unfolding next_id_def by (induction rows) (auto simp add: less_Suc_eq_le max_def)

lemma session_rollback_idle: "db_pending d = [] \<Longrightarrow> session_rollback d = d"
  by (simp add: session_rollback_def)

lemma save_research_dumps_raises:
  "dumps c f = Inl e \<Longrightarrow> save_research c now storage d sid q ct f = (session_rollback d, Inl e)"
  by (simp add: save_research_def)

lemma save_research_commit_raises:
  "dumps c f = Inr js \<Longrightarrow>
   save_research c now (Some msg) d sid q ct f = (session_rollback d, Inl (Exception msg))"
  by (simp add: save_research_def session_commit_def session_add_def session_rollback_def Let_def)

lemma save_research_commits:
  "dumps c f = Inr js \<Longrightarrow> db_pending d = [] \<Longrightarrow>
   save_research c now None d sid q ct f =
     (\<lparr> db_rows = db_rows d @
          [(next_id (db_rows d),
            \<lparr> rm_session_id = sid, rm_query = q, rm_cancer_type = ct,
              rm_findings = Some js, rm_timestamp = now \<rparr>)],
        db_pending = [] \<rparr>,
      Inr (next_id (db_rows d)))"
  by (simp add: save_research_def session_commit_def session_add_def Let_def upt_rec)

lemma save_doctor_review_dumps_raises:
  "dumps c (JDict [(''decision'', JStr decision), (''doctor'', JStr doctor),
                   (''comment'', JStr comment), (''timestamp'', JStr t1)]) = Inl e \<Longrightarrow>
   save_doctor_review c t1 t2 storage d sid decision doctor comment = (session_rollback d, Inl e)"
  by (simp add: save_doctor_review_def)

lemma save_doctor_review_commit_raises:
  "dumps c (JDict [(''decision'', JStr decision), (''doctor'', JStr doctor),
                   (''comment'', JStr comment), (''timestamp'', JStr t1)]) = Inr js \<Longrightarrow>
   save_doctor_review c t1 t2 (Some msg) d sid decision doctor comment =
     (session_rollback d, Inl (Exception msg))"
  by (simp add: save_doctor_review_def session_commit_def session_add_def session_rollback_def
      Let_def)

lemma save_doctor_review_commits:
  "dumps c (JDict [(''decision'', JStr decision), (''doctor'', JStr doctor),
                   (''comment'', JStr comment), (''timestamp'', JStr t1)]) = Inr js \<Longrightarrow>
   db_pending d = [] \<Longrightarrow>
   save_doctor_review c t1 t2 None d sid decision doctor comment =
     (\<lparr> db_rows = db_rows d @
          [(next_id (db_rows d),
            \<lparr> rm_session_id = sid, rm_query = ''Physician Review'',
              rm_cancer_type = ''clinical_decision'',
              rm_findings = Some js, rm_timestamp = t2 \<rparr>)],
        db_pending = [] \<rparr>,
      Inr (next_id (db_rows d)))"
  by (simp add: save_doctor_review_def session_commit_def session_add_def Let_def upt_rec)

lemma next_id_not_used: "next_id rows \<notin> fst ` set rows"
  using next_id_fresh [of _ rows] by fastforce

lemma save_research_keeps_rows:
  "db_pending d = [] \<Longrightarrow>
   take (length (db_rows d)) (db_rows (fst (save_research c now storage d sid q ct f))) = db_rows d"
proof (cases "dumps c f")
  case (Inl e)
  then show ?thesis by (simp add: save_research_dumps_raises session_rollback_def)
next
  case (Inr js)
  assume p: "db_pending d = []"
  show ?thesis
  proof (cases storage)
    case None
    with Inr p show ?thesis by (simp add: save_research_commits)
  next
    case (Some msg)
    with Inr show ?thesis by (simp add: save_research_commit_raises session_rollback_def)
  qed
qed

lemma save_doctor_review_keeps_rows:
  "db_pending d = [] \<Longrightarrow>
   take (length (db_rows d))
     (db_rows (fst (save_doctor_review c t1 t2 storage d sid decision doctor comment))) = db_rows d"
proof (cases "dumps c (JDict [(''decision'', JStr decision), (''doctor'', JStr doctor),
                   (''comment'', JStr comment), (''timestamp'', JStr t1)])")
  case (Inl e)
  then show ?thesis by (simp add: save_doctor_review_dumps_raises session_rollback_def)
next
  case (Inr js)
  assume p: "db_pending d = []"
  show ?thesis
  proof (cases storage)
    case None
    with Inr p show ?thesis by (simp add: save_doctor_review_commits)
  next
    case (Some msg)
    with Inr show ?thesis by (simp add: save_doctor_review_commit_raises session_rollback_def)
  qed
qed

lemma sample_dumps:
  "dumps sample_codec findings_first = Inr text_first"
  "dumps sample_codec findings_second = Inr text_second"
  "dumps sample_codec review_record = Inr text_review"
  "dumps sample_codec JNull = Inl (Exception ''TypeError'')"
  by (simp_all add: sample_codec_def table_codec_def findings_first_def findings_second_def
      review_record_def)



lemma db_after_first_run_value:
  "db_after_first_run =
     \<lparr> db_rows = [(1, \<lparr> rm_session_id = ''melanoma_workflow_2025'',
                         rm_query = ''pembrolizumab AND melanoma'',
                         rm_cancer_type = ''melanoma'',
                         rm_findings = Some text_first,
                         rm_timestamp = ''2025-11-27T14:32:00'' \<rparr>)],
       db_pending = [] \<rparr>"
  by (simp add: db_after_first_run_def empty_db_def
      save_research_commits [OF sample_dumps(1)] next_id_def)

lemma db_after_second_run_value:
  "db_after_second_run =
     \<lparr> db_rows = [(1, \<lparr> rm_session_id = ''melanoma_workflow_2025'',
                         rm_query = ''pembrolizumab AND melanoma'',
                         rm_cancer_type = ''melanoma'',
                         rm_findings = Some text_first,
                         rm_timestamp = ''2025-11-27T14:32:00'' \<rparr>),
                    (2, \<lparr> rm_session_id = ''melanoma_workflow_2025'',
                         rm_query = ''pembrolizumab AND melanoma'',
                         rm_cancer_type = ''melanoma'',
                         rm_findings = Some text_second,
                         rm_timestamp = ''2025-11-28T09:00:00'' \<rparr>)],
       db_pending = [] \<rparr>"
  by (simp add: db_after_second_run_def db_after_first_run_value
      save_research_commits [OF sample_dumps(2)] next_id_def)







section \<open>The recommendation scorer and the review gate\<close>

text \<open>
  Claim C1, as the code has it. The scorer is a function of the p-value, the paper count
  and the median difference read from the evidence: its confidence, strength and grade
  are those of the first matching tier of the specification's policy. The strength is
  written as the text "Strong recommendation", "Moderate recommendation" or
  "Weak recommendation". For the literal inputs (0.005, 12, 14) the result is grade 1A with
  confidence 0.94, for (0.03, 9, 3) grade 1B with confidence 0.87, and for (0.2, 2, 0),
  both medians null, grade 2C with confidence 0.62.
\<close>

theorem scorer_tiers:
  "rec_confidence_score (generate_recommendation ev) =
     fst (spec_score (dict_get (ev_p_value ev) 1.0) (dict_get (ev_total_papers ev) 0)
            (median_os_diff ev)) \<and>
   rec_strength_of_recommendation (generate_recommendation ev) =
     strength_text (fst (snd (spec_score (dict_get (ev_p_value ev) 1.0)
            (dict_get (ev_total_papers ev) 0) (median_os_diff ev)))) \<and>
   rec_grade (generate_recommendation ev) =
     snd (snd (spec_score (dict_get (ev_p_value ev) 1.0) (dict_get (ev_total_papers ev) 0)
            (median_os_diff ev))) \<and>
   spec_score 0.005 12 14 = (0.94, Strong, ''1A'') \<and>
   spec_score 0.03 9 3 = (0.87, Moderate, ''1B'') \<and>
   spec_score 0.2 2 0 = (0.62, Weak, ''2C'') \<and>
   rec_grade (generate_recommendation (mk_evidence 0.005 12 (Some 14) None)) = ''1A'' \<and>
   rec_confidence_score (generate_recommendation (mk_evidence 0.005 12 (Some 14) None)) = 0.94 \<and>
   rec_strength_of_recommendation (generate_recommendation (mk_evidence 0.005 12 (Some 14) None))
     = ''Strong recommendation'' \<and>
   rec_grade (generate_recommendation (mk_evidence 0.03 9 (Some 3) None)) = ''1B'' \<and>
   rec_confidence_score (generate_recommendation (mk_evidence 0.03 9 (Some 3) None)) = 0.87 \<and>
   rec_strength_of_recommendation (generate_recommendation (mk_evidence 0.03 9 (Some 3) None))
     = ''Moderate recommendation'' \<and>
   rec_grade (generate_recommendation (mk_evidence 0.2 2 None None)) = ''2C'' \<and>
   rec_confidence_score (generate_recommendation (mk_evidence 0.2 2 None None)) = 0.62 \<and>
   rec_strength_of_recommendation (generate_recommendation (mk_evidence 0.2 2 None None))
     = ''Weak recommendation''"
  by (simp add: generate_recommendation_fields mk_evidence_reads or_zero_simps spec_score_def)

text \<open>
  Claim C1 as stated gives the strength of the top tier as "Strong". At the claim's own
  literal input (0.005, 12, 14) the strength the code returns is another text.
\<close>

theorem scorer_strength_counterexample:
  "rec_strength_of_recommendation
     (generate_recommendation (mk_evidence 0.005 12 (Some 14) None)) \<noteq> ''Strong''"
  by (simp add: generate_recommendation_fields mk_evidence_reads or_zero_simps spec_score_def)

text \<open>
  Claim C2. The review gate is a function of the recommendation text, the confidence and
  the p-value: it always returns, and what it returns is fixed by the specification's
  policy. A confidence below 0.70 gives modify with the dose and monitoring comment;
  otherwise a p-value above 0.05 gives modify with the trial-enrollment comment; otherwise
  approve with the affirming comment. A confidence of 0.65 gives modify at every p-value,
  0.9 with p-value 0.1 gives modify, and 0.9 with p-value 0.01 gives approve.
\<close>

theorem review_gate_policy:
  "review_gate t c p =
     Inr \<lparr> rv_doctor_decision = decision_text (fst (spec_policy c p)),
           rv_doctor_name = doctor_name,
           rv_timestamp = ''2025-11-27 14:32'',
           rv_confidence_score = py_round3 c,
           rv_comment = snd (spec_policy c p),
           rv_final_recommendation =
             (if fst (spec_policy c p) = Approve then t else snd (spec_policy c p)) \<rparr> \<and>
   (\<exists>r. review_gate t 0.65 p = Inr r \<and> rv_doctor_decision r = ''modify'' \<and>
        rv_comment r = comment_low_confidence) \<and>
   (\<exists>r. review_gate t 0.9 0.1 = Inr r \<and> rv_doctor_decision r = ''modify'' \<and>
        rv_comment r = comment_weak_evidence) \<and>
   (\<exists>r. review_gate t 0.9 0.01 = Inr r \<and> rv_doctor_decision r = ''approve'' \<and>
        rv_comment r = comment_approve)"
  by (simp add: review_gate_result spec_policy_def)

text \<open>
  Claim C6. For every input of the review gate the decision is approve or modify, and the
  final recommendation is the input recommendation text when the decision is approve and
  the modification comment otherwise. When the input text is not itself one of the two
  modification comments, the final recommendation equals the input text if and only if
  the decision is approve.
\<close>

theorem final_recommendation_rule:
  "\<exists>r. review_gate t c p = Inr r \<and>
       (rv_doctor_decision r = ''approve'' \<or> rv_doctor_decision r = ''modify'') \<and>
       rv_final_recommendation r =
         (if rv_doctor_decision r = ''approve'' then t else rv_comment r) \<and>
       (t \<noteq> comment_low_confidence \<and> t \<noteq> comment_weak_evidence \<longrightarrow>
          (rv_final_recommendation r = t \<longleftrightarrow> rv_doctor_decision r = ''approve''))"
  using spec_policy_cases [of c p] by (auto simp add: review_gate_result)

theorem final_recommendation_rule_witness:
  "''Use pembrolizumab'' \<noteq> comment_low_confidence \<and>
   ''Use pembrolizumab'' \<noteq> comment_weak_evidence \<and>
   (\<exists>r. review_gate ''Use pembrolizumab'' 0.9 0.01 = Inr r \<and>
        rv_doctor_decision r = ''approve'' \<and>
        rv_final_recommendation r = ''Use pembrolizumab'') \<and>
   (\<exists>r. review_gate ''Use pembrolizumab'' 0.65 0.01 = Inr r \<and>
        rv_doctor_decision r = ''modify'' \<and>
        rv_final_recommendation r = comment_low_confidence \<and>
        rv_final_recommendation r \<noteq> ''Use pembrolizumab'')"
proof -
  have d: "''Use pembrolizumab'' \<noteq> comment_low_confidence"
          "''Use pembrolizumab'' \<noteq> comment_weak_evidence"
    by (simp_all add: comment_low_confidence_def comment_weak_evidence_def)
  have g1: "review_gate ''Use pembrolizumab'' 0.9 0.01 = Inr r \<Longrightarrow> rv_doctor_decision r = ''approve''" for r
    by (auto simp add: review_gate_result spec_policy_def)
  have g2: "review_gate ''Use pembrolizumab'' 0.65 0.01 = Inr r \<Longrightarrow>
      rv_doctor_decision r = ''modify'' \<and> rv_comment r = comment_low_confidence" for r
    by (auto simp add: review_gate_result spec_policy_def)
  from final_recommendation_rule [of "''Use pembrolizumab''" "0.9" "0.01"] d g1
  have a: "\<exists>r. review_gate ''Use pembrolizumab'' 0.9 0.01 = Inr r \<and>
        rv_doctor_decision r = ''approve'' \<and>
        rv_final_recommendation r = ''Use pembrolizumab''"
    by auto
  from final_recommendation_rule [of "''Use pembrolizumab''" "0.65" "0.01"] d g2
  have b: "\<exists>r. review_gate ''Use pembrolizumab'' 0.65 0.01 = Inr r \<and>
        rv_doctor_decision r = ''modify'' \<and>
        rv_final_recommendation r = comment_low_confidence \<and>
        rv_final_recommendation r \<noteq> ''Use pembrolizumab''"
    by auto
  from d a b show ?thesis by blast
qed

text \<open>
  Claim C10. Scorer and gate composed as the supervisor wires them (the gate receives the
  scorer's recommendation text and confidence and the evidence's own p-value): for every
  evidence record the decision is approve if and only if the grade is 1A or 1B. A
  recommendation of grade 2C is the weak one, of confidence 0.62, and it is modified with
  the low-confidence comment. The same equivalence holds for the report of every run of
  \<open>process_query\<close>.
\<close>

theorem approve_iff_grade:
  "(\<exists>r. review_recommendation
          \<lparr> ao_recommendation = Some (rec_recommendation (generate_recommendation (mk_evidence p n ma mb))),
            ao_confidence_score = Some (rec_confidence_score (generate_recommendation (mk_evidence p n ma mb))),
            ao_p_value = Some p \<rparr> = Inr r \<and>
        (rv_doctor_decision r = ''approve'' \<longleftrightarrow>
           rec_grade (generate_recommendation (mk_evidence p n ma mb)) = ''1A'' \<or>
           rec_grade (generate_recommendation (mk_evidence p n ma mb)) = ''1B'') \<and>
        ((rec_grade (generate_recommendation (mk_evidence p n ma mb)) = ''1A'' \<or>
          rec_grade (generate_recommendation (mk_evidence p n ma mb)) = ''1B'') \<and>
         rv_doctor_decision r = ''approve'' \<or>
         rec_grade (generate_recommendation (mk_evidence p n ma mb)) = ''2C'' \<and>
         rec_strength_of_recommendation (generate_recommendation (mk_evidence p n ma mb)) =
           ''Weak recommendation'' \<and>
         rec_confidence_score (generate_recommendation (mk_evidence p n ma mb)) = 0.62 \<and>
         rv_doctor_decision r = ''modify'' \<and> rv_comment r = comment_low_confidence)) \<and>
   (\<exists>rep. process_query m q pc sc st = Inr rep \<and>
        (rv_doctor_decision (rp_doctor_review rep) = ''approve'' \<longleftrightarrow>
           rec_grade (rp_recommendation rep) = ''1A'' \<or>
           rec_grade (rp_recommendation rep) = ''1B''))"
proof -
  have first: "\<exists>r. review_recommendation
          \<lparr> ao_recommendation = Some (rec_recommendation (generate_recommendation (mk_evidence p n ma mb))),
            ao_confidence_score = Some (rec_confidence_score (generate_recommendation (mk_evidence p n ma mb))),
            ao_p_value = Some p \<rparr> = Inr r \<and>
        (rv_doctor_decision r = ''approve'' \<longleftrightarrow>
           rec_grade (generate_recommendation (mk_evidence p n ma mb)) = ''1A'' \<or>
           rec_grade (generate_recommendation (mk_evidence p n ma mb)) = ''1B'') \<and>
        ((rec_grade (generate_recommendation (mk_evidence p n ma mb)) = ''1A'' \<or>
          rec_grade (generate_recommendation (mk_evidence p n ma mb)) = ''1B'') \<and>
         rv_doctor_decision r = ''approve'' \<or>
         rec_grade (generate_recommendation (mk_evidence p n ma mb)) = ''2C'' \<and>
         rec_strength_of_recommendation (generate_recommendation (mk_evidence p n ma mb)) =
           ''Weak recommendation'' \<and>
         rec_confidence_score (generate_recommendation (mk_evidence p n ma mb)) = 0.62 \<and>
         rv_doctor_decision r = ''modify'' \<and> rv_comment r = comment_low_confidence)"
    using score_then_policy [of p n "or_zero ma - or_zero mb"]
    by (auto simp add: review_recommendation_full generate_recommendation_fields mk_evidence_reads)
  have second: "\<exists>rep. process_query m q pc sc st = Inr rep \<and>
        (rv_doctor_decision (rp_doctor_review rep) = ''approve'' \<longleftrightarrow>
           rec_grade (rp_recommendation rep) = ''1A'' \<or>
           rec_grade (rp_recommendation rep) = ''1B'')"
    using score_then_policy [of "dict_get (ar_p_value (analyze_survival st)) 1.0"
        "int (dict_get (lr_total_found (query m q pc sc)) 0)"
        "median_os_diff (evidence_of (query m q pc sc) (analyze_survival st))"]
    by (auto simp add: process_query_result generate_recommendation_fields evidence_of_reads)
  from first second show ?thesis by blast
qed


section \<open>The supervisor\<close>

text \<open>
  Claim C3. A run of \<open>process_query\<close> whose literature search failed (an exception at
  the first or at the second source call) still returns its report: the scorer receives
  a paper count of 0, and the gate reviews that recommendation. A run whose survival
  analysis failed still returns its report: the scorer receives the p-value 1.0 and no
  medians. Every run returns a report whose recommendation is the scorer's on the
  evidence of that run, and whose review is the gate's on that recommendation.
\<close>

theorem failures_absorbed:
  "(\<exists>rep. process_query m q (Inl e) sc st = Inr rep \<and>
        lr_status (rp_literature rep) = ''error'' \<and>
        rp_recommendation rep =
          generate_recommendation
            (mk_evidence (dict_get (ar_p_value (analyze_survival st)) 1.0) 0
               (dict_get (ar_median_pembrolizumab (analyze_survival st)) None)
               (dict_get (ar_median_nivolumab (analyze_survival st)) None)) \<and>
        review_gate (rec_recommendation (rp_recommendation rep))
          (rec_confidence_score (rp_recommendation rep))
          (dict_get (ar_p_value (analyze_survival st)) 1.0) = Inr (rp_doctor_review rep)) \<and>
   (\<exists>rep. process_query m q (Inr pr) (Inl e) st = Inr rep \<and>
        lr_status (rp_literature rep) = ''error'' \<and>
        rp_recommendation rep =
          generate_recommendation
            (mk_evidence (dict_get (ar_p_value (analyze_survival st)) 1.0) 0
               (dict_get (ar_median_pembrolizumab (analyze_survival st)) None)
               (dict_get (ar_median_nivolumab (analyze_survival st)) None)) \<and>
        review_gate (rec_recommendation (rp_recommendation rep))
          (rec_confidence_score (rp_recommendation rep))
          (dict_get (ar_p_value (analyze_survival st)) 1.0) = Inr (rp_doctor_review rep)) \<and>
   (\<exists>rep. process_query m q pc sc (StatsError err) = Inr rep \<and>
        ar_status (rp_analysis rep) = ''error'' \<and>
        rp_recommendation rep =
          generate_recommendation
            (mk_evidence 1.0 (int (dict_get (lr_total_found (query m q pc sc)) 0)) None None) \<and>
        review_gate (rec_recommendation (rp_recommendation rep))
          (rec_confidence_score (rp_recommendation rep)) 1.0 = Inr (rp_doctor_review rep)) \<and>
   (\<exists>rep. process_query m q pc sc st = Inr rep \<and>
        rp_recommendation rep =
          generate_recommendation (evidence_of (query m q pc sc) (analyze_survival st)) \<and>
        review_gate (rec_recommendation (rp_recommendation rep))
          (rec_confidence_score (rp_recommendation rep))
          (dict_get (ar_p_value (analyze_survival st)) 1.0) = Inr (rp_doctor_review rep))"
proof -
  have ev1: "evidence_of (query m q (Inl e) sc) a =
      mk_evidence (dict_get (ar_p_value a) 1.0) 0
        (dict_get (ar_median_pembrolizumab a) None) (dict_get (ar_median_nivolumab a) None)" for a
    by (simp add: evidence_of_def mk_evidence_def query_error_first dict_get_def)
  have ev2: "evidence_of (query m q (Inr pr) (Inl e)) a =
      mk_evidence (dict_get (ar_p_value a) 1.0) 0
        (dict_get (ar_median_pembrolizumab a) None) (dict_get (ar_median_nivolumab a) None)" for a
    by (simp add: evidence_of_def mk_evidence_def query_error_second dict_get_def)
  have ev3: "evidence_of l (analyze_survival (StatsError err)) =
      mk_evidence 1.0 (int (dict_get (lr_total_found l) 0)) None None" for l
    by (simp add: evidence_of_def mk_evidence_def analyze_survival_error dict_get_def)
  have p3: "dict_get (ar_p_value (analyze_survival (StatsError err))) 1.0 = 1.0"
    by (simp add: analyze_survival_error dict_get_def)
  have a: "\<exists>rep. process_query m q (Inl e) sc st = Inr rep \<and>
        lr_status (rp_literature rep) = ''error'' \<and>
        rp_recommendation rep =
          generate_recommendation
            (mk_evidence (dict_get (ar_p_value (analyze_survival st)) 1.0) 0
               (dict_get (ar_median_pembrolizumab (analyze_survival st)) None)
               (dict_get (ar_median_nivolumab (analyze_survival st)) None)) \<and>
        review_gate (rec_recommendation (rp_recommendation rep))
          (rec_confidence_score (rp_recommendation rep))
          (dict_get (ar_p_value (analyze_survival st)) 1.0) = Inr (rp_doctor_review rep)"
    by (simp add: process_query_result review_gate_result ev1) (simp add: query_error_first)
  have b: "\<exists>rep. process_query m q (Inr pr) (Inl e) st = Inr rep \<and>
        lr_status (rp_literature rep) = ''error'' \<and>
        rp_recommendation rep =
          generate_recommendation
            (mk_evidence (dict_get (ar_p_value (analyze_survival st)) 1.0) 0
               (dict_get (ar_median_pembrolizumab (analyze_survival st)) None)
               (dict_get (ar_median_nivolumab (analyze_survival st)) None)) \<and>
        review_gate (rec_recommendation (rp_recommendation rep))
          (rec_confidence_score (rp_recommendation rep))
          (dict_get (ar_p_value (analyze_survival st)) 1.0) = Inr (rp_doctor_review rep)"
    by (simp add: process_query_result review_gate_result ev2) (simp add: query_error_second)
  have c: "\<exists>rep. process_query m q pc sc (StatsError err) = Inr rep \<and>
        ar_status (rp_analysis rep) = ''error'' \<and>
        rp_recommendation rep =
          generate_recommendation
            (mk_evidence 1.0 (int (dict_get (lr_total_found (query m q pc sc)) 0)) None None) \<and>
        review_gate (rec_recommendation (rp_recommendation rep))
          (rec_confidence_score (rp_recommendation rep)) 1.0 = Inr (rp_doctor_review rep)"
    by (simp add: process_query_result review_gate_result ev3 p3) (simp add: analyze_survival_error dict_get_def)
  have d: "\<exists>rep. process_query m q pc sc st = Inr rep \<and>
        rp_recommendation rep =
          generate_recommendation (evidence_of (query m q pc sc) (analyze_survival st)) \<and>
        review_gate (rec_recommendation (rp_recommendation rep))
          (rec_confidence_score (rp_recommendation rep))
          (dict_get (ar_p_value (analyze_survival st)) 1.0) = Inr (rp_doctor_review rep)"
    by (simp add: process_query_result review_gate_result)
  from a b c d show ?thesis by blast
qed

section \<open>The literature agent\<close>

text \<open>
  Claim C4. For every successful literature search both source calls returned, and with
  the papers each source contributes (those of a result of status success): the reported
  pubmed count and scholar count are the numbers of these papers before truncation, the
  total found is their sum, and the returned list is the first 20 entries of the PubMed
  papers, each with the source tag added, in their order, followed by the Scholar papers in
  their order. Its length is the minimum of 20 and the sum of the two counts. When the
  pubmed count is within the cap, its first entries are exactly the tagged PubMed papers
  and the rest are the Scholar papers that fit.
\<close>

theorem aggregation_order_and_counts:
  assumes "lr_status (query m q pc sc) = ''success''"
  shows "\<exists>pr sr ps.
     pc = Inr pr \<and> sc = Inr sr \<and>
     lr_papers (query m q pc sc) = Some ps \<and>
     lr_pubmed_count (query m q pc sc) = Some (length (counted_papers pr)) \<and>
     lr_scholar_count (query m q pc sc) = Some (length (counted_papers sr)) \<and>
     lr_total_found (query m q pc sc) =
       Some (length (counted_papers pr) + length (counted_papers sr)) \<and>
     length ps = min 20 (length (counted_papers pr) + length (counted_papers sr)) \<and>
     ps = take 20 (map (Tagged ''PubMed'') (counted_papers pr) @
                   map Untagged (counted_papers sr)) \<and>
     take (length (counted_papers pr)) ps = take 20 (map (Tagged ''PubMed'') (counted_papers pr)) \<and>
     (length (counted_papers pr) \<le> 20 \<longrightarrow>
        take (length (counted_papers pr)) ps = map (Tagged ''PubMed'') (counted_papers pr) \<and>
        drop (length (counted_papers pr)) ps =
          take (20 - length (counted_papers pr)) (map Untagged (counted_papers sr)))"
proof -
  from assms obtain pr sr where pc: "pc = Inr pr" and sc: "sc = Inr sr"
    by (cases pc; cases sc) (simp_all add: query_error_first query_error_second)
  let ?A = "map (Tagged ''PubMed'') (counted_papers pr)"
  let ?B = "map Untagged (counted_papers sr)"
  have len: "length (take 20 (?A @ ?B)) = min 20 (length (counted_papers pr) + length (counted_papers sr))"
    by (simp add: min.commute)
  have pre: "take (length (counted_papers pr)) (take 20 (?A @ ?B)) = take 20 ?A"
    using take_prefix_of_capped [of ?A ?B] by simp
  have cap: "length (counted_papers pr) \<le> 20 \<Longrightarrow>
      take (length (counted_papers pr)) (take 20 (?A @ ?B)) = ?A \<and>
      drop (length (counted_papers pr)) (take 20 (?A @ ?B)) =
        take (20 - length (counted_papers pr)) ?B"
    using capped_split [of ?A ?B] by simp
  show ?thesis
    using len pre cap by (simp add: pc sc query_success)
qed


theorem aggregation_order_and_counts_witness:
  "lr_status (query ''gemini-2.5-flash'' ''melanoma''
      (Inr \<lparr> sr_status = ''success'', sr_papers = replicate 12 sample_pubmed_paper \<rparr>)
      (Inr \<lparr> sr_status = ''success'', sr_papers = replicate 10 sample_scholar_paper \<rparr>)) = ''success'' \<and>
   (\<exists>ps. lr_papers (query ''gemini-2.5-flash'' ''melanoma''
      (Inr \<lparr> sr_status = ''success'', sr_papers = replicate 12 sample_pubmed_paper \<rparr>)
      (Inr \<lparr> sr_status = ''success'', sr_papers = replicate 10 sample_scholar_paper \<rparr>)) = Some ps \<and>
      length ps = 20 \<and>
      take 12 ps = replicate 12 (Tagged ''PubMed'' sample_pubmed_paper) \<and>
      drop 12 ps = replicate 8 (Untagged sample_scholar_paper)) \<and>
   lr_pubmed_count (query ''gemini-2.5-flash'' ''melanoma''
      (Inr \<lparr> sr_status = ''success'', sr_papers = replicate 12 sample_pubmed_paper \<rparr>)
      (Inr \<lparr> sr_status = ''success'', sr_papers = replicate 10 sample_scholar_paper \<rparr>)) = Some 12 \<and>
   lr_scholar_count (query ''gemini-2.5-flash'' ''melanoma''
      (Inr \<lparr> sr_status = ''success'', sr_papers = replicate 12 sample_pubmed_paper \<rparr>)
      (Inr \<lparr> sr_status = ''success'', sr_papers = replicate 10 sample_scholar_paper \<rparr>)) = Some 10 \<and>
   lr_total_found (query ''gemini-2.5-flash'' ''melanoma''
      (Inr \<lparr> sr_status = ''success'', sr_papers = replicate 12 sample_pubmed_paper \<rparr>)
      (Inr \<lparr> sr_status = ''success'', sr_papers = replicate 10 sample_scholar_paper \<rparr>)) = Some 22"
proof -
  let ?P = "\<lparr> sr_status = ''success'', sr_papers = replicate 12 sample_pubmed_paper \<rparr>"
  let ?S = "\<lparr> sr_status = ''success'', sr_papers = replicate 10 sample_scholar_paper \<rparr>"
  let ?Q = "query ''gemini-2.5-flash'' ''melanoma'' (Inr ?P) (Inr ?S)"
  have ok: "lr_status ?Q = ''success''"
    by (simp add: query_status)
  have cp: "counted_papers ?P = replicate 12 sample_pubmed_paper"
           "counted_papers ?S = replicate 10 sample_scholar_paper"
    by (simp_all add: counted_papers_def)
  from aggregation_order_and_counts [OF ok] obtain pr sr ps where
    h: "Inr ?P = (Inr pr :: string + pubmed_paper source_result)"
       "Inr ?S = (Inr sr :: string + scholar_paper source_result)"
       "lr_papers ?Q = Some ps"
       "lr_pubmed_count ?Q = Some (length (counted_papers pr))"
       "lr_scholar_count ?Q = Some (length (counted_papers sr))"
       "lr_total_found ?Q = Some (length (counted_papers pr) + length (counted_papers sr))"
       "length ps = min 20 (length (counted_papers pr) + length (counted_papers sr))"
       "length (counted_papers pr) \<le> 20 \<longrightarrow>
          take (length (counted_papers pr)) ps = map (Tagged ''PubMed'') (counted_papers pr) \<and>
          drop (length (counted_papers pr)) ps =
            take (20 - length (counted_papers pr)) (map Untagged (counted_papers sr))"
    by blast
  from h(1,2) have e: "pr = ?P" "sr = ?S" by simp_all
  from h(3-8) show ?thesis
    unfolding e cp using ok by simp
qed


text \<open>
  Claim C5. A source whose result has a status other than success contributes no papers:
  its count is 0, the papers of the other source are kept (up to the cap of 20), and the
  search has status success, also when both sources failed. The search has status error if
  and only if one of the two source calls raised inside the aggregation; that result
  carries the message of the exception and the query, and no papers and no counts.
\<close>

theorem source_errors_absorbed:
  "(sr_status pr \<noteq> ''success'' \<and> sr_status sr = ''success'' \<longrightarrow>
      lr_status (query m q (Inr pr) (Inr sr)) = ''success'' \<and>
      lr_pubmed_count (query m q (Inr pr) (Inr sr)) = Some 0 \<and>
      lr_scholar_count (query m q (Inr pr) (Inr sr)) = Some (length (sr_papers sr)) \<and>
      lr_total_found (query m q (Inr pr) (Inr sr)) = Some (length (sr_papers sr)) \<and>
      lr_papers (query m q (Inr pr) (Inr sr)) = Some (take 20 (map Untagged (sr_papers sr)))) \<and>
   (sr_status pr = ''success'' \<and> sr_status sr \<noteq> ''success'' \<longrightarrow>
      lr_status (query m q (Inr pr) (Inr sr)) = ''success'' \<and>
      lr_pubmed_count (query m q (Inr pr) (Inr sr)) = Some (length (sr_papers pr)) \<and>
      lr_scholar_count (query m q (Inr pr) (Inr sr)) = Some 0 \<and>
      lr_total_found (query m q (Inr pr) (Inr sr)) = Some (length (sr_papers pr)) \<and>
      lr_papers (query m q (Inr pr) (Inr sr)) =
        Some (take 20 (map (Tagged ''PubMed'') (sr_papers pr)))) \<and>
   (sr_status pr \<noteq> ''success'' \<and> sr_status sr \<noteq> ''success'' \<longrightarrow>
      lr_status (query m q (Inr pr) (Inr sr)) = ''success'' \<and>
      lr_total_found (query m q (Inr pr) (Inr sr)) = Some 0 \<and>
      lr_papers (query m q (Inr pr) (Inr sr)) = Some []) \<and>
   (lr_status (query m q pc sc) = ''success'' \<or> lr_status (query m q pc sc) = ''error'') \<and>
   (lr_status (query m q pc sc) = ''error'' \<longleftrightarrow> isl pc \<or> isl sc) \<and>
   lr_status (query m q (Inl e) sc) = ''error'' \<and>
   lr_error (query m q (Inl e) sc) = Some e \<and>
   lr_query (query m q (Inl e) sc) = q \<and>
   lr_papers (query m q (Inl e) sc) = None \<and>
   lr_total_found (query m q (Inl e) sc) = None \<and>
   lr_status (query m q (Inr pr) (Inl e)) = ''error'' \<and>
   lr_error (query m q (Inr pr) (Inl e)) = Some e \<and>
   lr_query (query m q (Inr pr) (Inl e)) = q \<and>
   lr_papers (query m q (Inr pr) (Inl e)) = None \<and>
   lr_total_found (query m q (Inr pr) (Inl e)) = None"
proof -
  have st: "lr_status (query m q pc sc) = ''success'' \<or> lr_status (query m q pc sc) = ''error''"
    by (cases pc; cases sc) (simp_all add: query_error_first query_error_second query_success)
  show ?thesis
    using st
    by (simp add: query_status query_error_first query_error_second query_success
        counted_papers_def)
qed

theorem source_errors_absorbed_witness:
  "sr_status \<lparr> sr_status = ''error'', sr_papers = [sample_pubmed_paper] \<rparr> \<noteq> ''success'' \<and>
   sr_status \<lparr> sr_status = ''success'', sr_papers = [sample_scholar_paper] \<rparr> = ''success'' \<and>
   lr_status (query ''gemini-2.5-flash'' ''melanoma''
      (Inr \<lparr> sr_status = ''error'', sr_papers = [sample_pubmed_paper] \<rparr>)
      (Inr \<lparr> sr_status = ''success'', sr_papers = [sample_scholar_paper] \<rparr>)) = ''success'' \<and>
   lr_pubmed_count (query ''gemini-2.5-flash'' ''melanoma''
      (Inr \<lparr> sr_status = ''error'', sr_papers = [sample_pubmed_paper] \<rparr>)
      (Inr \<lparr> sr_status = ''success'', sr_papers = [sample_scholar_paper] \<rparr>)) = Some 0 \<and>
   lr_papers (query ''gemini-2.5-flash'' ''melanoma''
      (Inr \<lparr> sr_status = ''error'', sr_papers = [sample_pubmed_paper] \<rparr>)
      (Inr \<lparr> sr_status = ''success'', sr_papers = [sample_scholar_paper] \<rparr>)) =
     Some [Untagged sample_scholar_paper] \<and>
   lr_status (query ''gemini-2.5-flash'' ''melanoma''
      (Inr \<lparr> sr_status = ''success'', sr_papers = [sample_pubmed_paper] \<rparr>)
      (Inr \<lparr> sr_status = ''error'', sr_papers = [sample_scholar_paper] \<rparr>)) = ''success'' \<and>
   lr_scholar_count (query ''gemini-2.5-flash'' ''melanoma''
      (Inr \<lparr> sr_status = ''success'', sr_papers = [sample_pubmed_paper] \<rparr>)
      (Inr \<lparr> sr_status = ''error'', sr_papers = [sample_scholar_paper] \<rparr>)) = Some 0 \<and>
   lr_papers (query ''gemini-2.5-flash'' ''melanoma''
      (Inr \<lparr> sr_status = ''success'', sr_papers = [sample_pubmed_paper] \<rparr>)
      (Inr \<lparr> sr_status = ''error'', sr_papers = [sample_scholar_paper] \<rparr>)) =
     Some [Tagged ''PubMed'' sample_pubmed_paper] \<and>
   lr_papers (query ''gemini-2.5-flash'' ''melanoma''
      (Inr \<lparr> sr_status = ''error'', sr_papers = [sample_pubmed_paper] \<rparr>)
      (Inr \<lparr> sr_status = ''error'', sr_papers = [sample_scholar_paper] \<rparr>)) = Some []"
  using
    source_errors_absorbed [where pr = "\<lparr> sr_status = ''error'', sr_papers = [sample_pubmed_paper] \<rparr>"
      and sr = "\<lparr> sr_status = ''success'', sr_papers = [sample_scholar_paper] \<rparr>"
      and m = "''gemini-2.5-flash''" and q = "''melanoma''"]
    source_errors_absorbed [where pr = "\<lparr> sr_status = ''success'', sr_papers = [sample_pubmed_paper] \<rparr>"
      and sr = "\<lparr> sr_status = ''error'', sr_papers = [sample_scholar_paper] \<rparr>"
      and m = "''gemini-2.5-flash''" and q = "''melanoma''"]
    source_errors_absorbed [where pr = "\<lparr> sr_status = ''error'', sr_papers = [sample_pubmed_paper] \<rparr>"
      and sr = "\<lparr> sr_status = ''error'', sr_papers = [sample_scholar_paper] \<rparr>"
      and m = "''gemini-2.5-flash''" and q = "''melanoma''"]
  by simp

text \<open>
  Claim C9. For the counts of two sources, the summary is the fixed "no publications"
  message if and only if both counts are zero; with one nonzero count it names that
  source's count, and with two it joins the two with "and". In a search result the
  summary is the one of the two reported counts, and it is the "no publications" message
  if and only if the total found is 0.
\<close>

theorem summary_text:
  "generate_summary (int a) (int b) =
     (if a = 0 \<and> b = 0 then no_publications
      else if b = 0 then
        ''Retrieved '' @ str_nat a @ '' publications from PubMed'' @
        '' covering recent advances in the specified research area (2023-2025).''
      else if a = 0 then
        ''Retrieved '' @ str_nat b @ '' from Google Scholar'' @
        '' covering recent advances in the specified research area (2023-2025).''
      else
        ''Retrieved '' @ str_nat a @ '' publications from PubMed'' @ '' and '' @
        str_nat b @ '' from Google Scholar'' @
        '' covering recent advances in the specified research area (2023-2025).'') \<and>
   (generate_summary (int a) (int b) = no_publications \<longleftrightarrow> a = 0 \<and> b = 0) \<and>
   (generate_summary x y = no_publications \<longleftrightarrow> x \<le> 0 \<and> y \<le> 0) \<and>
   lr_analysis (query m q (Inr pr) (Inr sr)) =
     Some (generate_summary (int (length (counted_papers pr))) (int (length (counted_papers sr)))) \<and>
   lr_pubmed_count (query m q (Inr pr) (Inr sr)) = Some (length (counted_papers pr)) \<and>
   lr_scholar_count (query m q (Inr pr) (Inr sr)) = Some (length (counted_papers sr)) \<and>
   lr_total_found (query m q (Inr pr) (Inr sr)) =
     Some (length (counted_papers pr) + length (counted_papers sr)) \<and>
   (lr_analysis (query m q (Inr pr) (Inr sr)) = Some no_publications \<longleftrightarrow>
      lr_pubmed_count (query m q (Inr pr) (Inr sr)) = Some 0 \<and>
      lr_scholar_count (query m q (Inr pr) (Inr sr)) = Some 0) \<and>
   (lr_analysis (query m q (Inr pr) (Inr sr)) = Some no_publications \<longleftrightarrow>
      lr_total_found (query m q (Inr pr) (Inr sr)) = Some 0) \<and>
   generate_summary 12 6 =
     ''Retrieved 12 publications from PubMed and 6 from Google Scholar covering recent advances in the specified research area (2023-2025).''"
proof -
  have eq: "generate_summary (int a) (int b) =
     (if a = 0 \<and> b = 0 then no_publications
      else if b = 0 then
        ''Retrieved '' @ str_nat a @ '' publications from PubMed'' @
        '' covering recent advances in the specified research area (2023-2025).''
      else if a = 0 then
        ''Retrieved '' @ str_nat b @ '' from Google Scholar'' @
        '' covering recent advances in the specified research area (2023-2025).''
      else
        ''Retrieved '' @ str_nat a @ '' publications from PubMed'' @ '' and '' @
        str_nat b @ '' from Google Scholar'' @
        '' covering recent advances in the specified research area (2023-2025).'')" for a b
    by (simp add: generate_summary_cases)
  have iff_int: "generate_summary x y = no_publications \<longleftrightarrow> x \<le> 0 \<and> y \<le> 0" for x y
    using retrieved_not_no_publications
    by (auto simp add: generate_summary_cases simp del: append_assoc)
  have iff_nat: "generate_summary (int a) (int b) = no_publications \<longleftrightarrow> a = 0 \<and> b = 0" for a b
    by (simp add: iff_int)
  have ex: "generate_summary 12 6 =
     ''Retrieved 12 publications from PubMed and 6 from Google Scholar covering recent advances in the specified research area (2023-2025).''"
    by code_simp
  have q1: "lr_analysis (query m q (Inr pr) (Inr sr)) =
     Some (generate_summary (int (length (counted_papers pr))) (int (length (counted_papers sr))))"
    by (simp add: query_success)
  have q2: "lr_pubmed_count (query m q (Inr pr) (Inr sr)) = Some (length (counted_papers pr))"
    by (simp add: query_success)
  have q3: "lr_scholar_count (query m q (Inr pr) (Inr sr)) = Some (length (counted_papers sr))"
    by (simp add: query_success)
  have q4: "lr_total_found (query m q (Inr pr) (Inr sr)) =
     Some (length (counted_papers pr) + length (counted_papers sr))"
    by (simp add: query_success)
  have q5: "lr_analysis (query m q (Inr pr) (Inr sr)) = Some no_publications \<longleftrightarrow>
      lr_pubmed_count (query m q (Inr pr) (Inr sr)) = Some 0 \<and>
      lr_scholar_count (query m q (Inr pr) (Inr sr)) = Some 0"
    unfolding q1 q2 q3 by (simp add: iff_nat)
  have q6: "lr_analysis (query m q (Inr pr) (Inr sr)) = Some no_publications \<longleftrightarrow>
      lr_total_found (query m q (Inr pr) (Inr sr)) = Some 0"
    unfolding q1 q4 by (simp add: iff_nat)
  show ?thesis
    by (intro conjI, fact eq, fact iff_nat, fact iff_int, fact q1, fact q2, fact q3, fact q4,
        fact q5, fact q6, fact ex)
qed


section \<open>The persistence layer\<close>

text \<open>
  Claim C7. For \<open>save_research\<close> and \<open>save_doctor_review\<close>, called on a session with
  nothing pending: when the serialisation of the payload or the commit raises, the
  database after the call is the database before it and the exception is returned to the
  caller; when the commit succeeds, exactly one row is appended, under an id that no
  existing row has, and that id is returned. In every case the rows that existed before
  the call are still there, unchanged and in place, and nothing is left pending.
\<close>

theorem saves_atomic_and_append_only:
  assumes "db_pending d = []"
  shows
  "(dumps c f = Inl e \<longrightarrow> save_research c now storage d sid q ct f = (d, Inl e)) \<and>
   (dumps c f = Inr js \<longrightarrow>
      save_research c now (Some msg) d sid q ct f = (d, Inl (Exception msg)) \<and>
      save_research c now None d sid q ct f =
        (\<lparr> db_rows = db_rows d @
             [(next_id (db_rows d),
               \<lparr> rm_session_id = sid, rm_query = q, rm_cancer_type = ct,
                 rm_findings = Some js, rm_timestamp = now \<rparr>)],
           db_pending = [] \<rparr>,
         Inr (next_id (db_rows d)))) \<and>
   (dumps c (JDict [(''decision'', JStr decision), (''doctor'', JStr doctor),
                    (''comment'', JStr comment), (''timestamp'', JStr t1)]) = Inl e \<longrightarrow>
      save_doctor_review c t1 t2 storage d sid decision doctor comment = (d, Inl e)) \<and>
   (dumps c (JDict [(''decision'', JStr decision), (''doctor'', JStr doctor),
                    (''comment'', JStr comment), (''timestamp'', JStr t1)]) = Inr js \<longrightarrow>
      save_doctor_review c t1 t2 (Some msg) d sid decision doctor comment =
        (d, Inl (Exception msg)) \<and>
      save_doctor_review c t1 t2 None d sid decision doctor comment =
        (\<lparr> db_rows = db_rows d @
             [(next_id (db_rows d),
               \<lparr> rm_session_id = sid, rm_query = ''Physician Review'',
                 rm_cancer_type = ''clinical_decision'',
                 rm_findings = Some js, rm_timestamp = t2 \<rparr>)],
           db_pending = [] \<rparr>,
         Inr (next_id (db_rows d)))) \<and>
   next_id (db_rows d) \<notin> fst ` set (db_rows d) \<and>
   take (length (db_rows d)) (db_rows (fst (save_research c now storage d sid q ct f))) =
     db_rows d \<and>
   db_pending (fst (save_research c now storage d sid q ct f)) = [] \<and>
   take (length (db_rows d))
     (db_rows (fst (save_doctor_review c t1 t2 storage d sid decision doctor comment))) =
     db_rows d \<and>
   db_pending (fst (save_doctor_review c t1 t2 storage d sid decision doctor comment)) = []"
proof -
  note idle = session_rollback_idle [OF assms]
  have a: "dumps c f = Inl e \<longrightarrow> save_research c now storage d sid q ct f = (d, Inl e)"
    by (simp add: save_research_dumps_raises idle)
  have b: "dumps c f = Inr js \<longrightarrow>
      save_research c now (Some msg) d sid q ct f = (d, Inl (Exception msg)) \<and>
      save_research c now None d sid q ct f =
        (\<lparr> db_rows = db_rows d @
             [(next_id (db_rows d),
               \<lparr> rm_session_id = sid, rm_query = q, rm_cancer_type = ct,
                 rm_findings = Some js, rm_timestamp = now \<rparr>)],
           db_pending = [] \<rparr>,
         Inr (next_id (db_rows d)))"
    using assms by (simp add: save_research_commit_raises save_research_commits idle)
  have a': "dumps c (JDict [(''decision'', JStr decision), (''doctor'', JStr doctor),
                    (''comment'', JStr comment), (''timestamp'', JStr t1)]) = Inl e \<longrightarrow>
      save_doctor_review c t1 t2 storage d sid decision doctor comment = (d, Inl e)"
    by (simp add: save_doctor_review_dumps_raises idle)
  have b': "dumps c (JDict [(''decision'', JStr decision), (''doctor'', JStr doctor),
                    (''comment'', JStr comment), (''timestamp'', JStr t1)]) = Inr js \<longrightarrow>
      save_doctor_review c t1 t2 (Some msg) d sid decision doctor comment =
        (d, Inl (Exception msg)) \<and>
      save_doctor_review c t1 t2 None d sid decision doctor comment =
        (\<lparr> db_rows = db_rows d @
             [(next_id (db_rows d),
               \<lparr> rm_session_id = sid, rm_query = ''Physician Review'',
                 rm_cancer_type = ''clinical_decision'',
                 rm_findings = Some js, rm_timestamp = t2 \<rparr>)],
           db_pending = [] \<rparr>,
         Inr (next_id (db_rows d)))"
    using assms by (simp add: save_doctor_review_commit_raises save_doctor_review_commits idle)
  have p1: "db_pending (fst (save_research c now storage d sid q ct f)) = []"
    by (cases "dumps c f"; cases storage)
       (simp_all add: save_research_dumps_raises save_research_commit_raises
          save_research_commits assms session_rollback_def)
  have p2: "db_pending (fst (save_doctor_review c t1 t2 storage d sid decision doctor comment)) = []"
    by (cases "dumps c (JDict [(''decision'', JStr decision), (''doctor'', JStr doctor),
                    (''comment'', JStr comment), (''timestamp'', JStr t1)])"; cases storage)
       (simp_all add: save_doctor_review_dumps_raises save_doctor_review_commit_raises
          save_doctor_review_commits assms session_rollback_def)
  show ?thesis
    by (intro conjI, fact a, fact b, fact a', fact b', fact next_id_not_used,
        fact save_research_keeps_rows [OF assms], fact p1,
        fact save_doctor_review_keeps_rows [OF assms], fact p2)
qed


theorem saves_atomic_and_append_only_witness:
  "db_pending db_after_first_run = [] \<and>
   dumps sample_codec findings_second = Inr text_second \<and>
   save_research sample_codec ''2025-11-28T09:00:00'' (Some ''database is locked'')
     db_after_first_run ''melanoma_workflow_2025'' ''pembrolizumab AND melanoma'' ''melanoma''
     findings_second = (db_after_first_run, Inl (Exception ''database is locked'')) \<and>
   save_research sample_codec ''2025-11-28T09:00:00'' None
     db_after_first_run ''melanoma_workflow_2025'' ''pembrolizumab AND melanoma'' ''melanoma''
     findings_second = (db_after_second_run, Inr 2) \<and>
   dumps sample_codec JNull = Inl (Exception ''TypeError'') \<and>
   save_research sample_codec ''2025-11-28T09:00:00'' None
     db_after_first_run ''melanoma_workflow_2025'' ''pembrolizumab AND melanoma'' ''melanoma''
     JNull = (db_after_first_run, Inl (Exception ''TypeError'')) \<and>
   save_doctor_review sample_codec ''2025-11-27T14:32:00'' ''2025-11-27T14:32:01''
     (Some ''database is locked'') db_after_first_run ''melanoma_clinical_review_2025''
     ''approved'' ''Dr. A'' ''ok'' = (db_after_first_run, Inl (Exception ''database is locked'')) \<and>
   save_doctor_review sample_codec ''2025-11-27T14:32:00'' ''2025-11-27T14:32:01''
     None db_after_first_run ''melanoma_clinical_review_2025''
     ''approved'' ''Dr. A'' ''ok'' =
     (\<lparr> db_rows = db_rows db_after_first_run @
          [(2, \<lparr> rm_session_id = ''melanoma_clinical_review_2025'',
                 rm_query = ''Physician Review'', rm_cancer_type = ''clinical_decision'',
                 rm_findings = Some text_review, rm_timestamp = ''2025-11-27T14:32:01'' \<rparr>)],
        db_pending = [] \<rparr>, Inr 2)"
proof -
  have pend: "db_pending db_after_first_run = []"
    by (simp add: db_after_first_run_value)
  have nid: "next_id (db_rows db_after_first_run) = 2"
    by (simp add: db_after_first_run_value next_id_def)
  have rec: "dumps sample_codec (JDict [(''decision'', JStr ''approved''), (''doctor'', JStr ''Dr. A''),
                    (''comment'', JStr ''ok''), (''timestamp'', JStr ''2025-11-27T14:32:00'')]) =
             Inr text_review"
    using sample_dumps(3) by (simp add: review_record_def)
  have snd_db: "db_after_second_run =
      \<lparr> db_rows = db_rows db_after_first_run @
          [(2, \<lparr> rm_session_id = ''melanoma_workflow_2025'',
                 rm_query = ''pembrolizumab AND melanoma'', rm_cancer_type = ''melanoma'',
                 rm_findings = Some text_second, rm_timestamp = ''2025-11-28T09:00:00'' \<rparr>)],
        db_pending = [] \<rparr>"
    by (simp add: db_after_second_run_value db_after_first_run_value)
  note w1 = saves_atomic_and_append_only [OF pend, where c = sample_codec
      and f = findings_second and js = text_second and msg = "''database is locked''"
      and now = "''2025-11-28T09:00:00''" and sid = "''melanoma_workflow_2025''"
      and q = "''pembrolizumab AND melanoma''" and ct = "''melanoma''"]
  note w2 = saves_atomic_and_append_only [OF pend, where c = sample_codec
      and f = JNull and e = "Exception ''TypeError''" and storage = None
      and now = "''2025-11-28T09:00:00''" and sid = "''melanoma_workflow_2025''"
      and q = "''pembrolizumab AND melanoma''" and ct = "''melanoma''"]
  note w3 = saves_atomic_and_append_only [OF pend, where c = sample_codec
      and js = text_review and msg = "''database is locked''"
      and ?t1.0 = "''2025-11-27T14:32:00''" and ?t2.0 = "''2025-11-27T14:32:01''"
      and sid = "''melanoma_clinical_review_2025''" and decision = "''approved''"
      and doctor = "''Dr. A''" and comment = "''ok''"]
  have a: "save_research sample_codec ''2025-11-28T09:00:00'' (Some ''database is locked'')
     db_after_first_run ''melanoma_workflow_2025'' ''pembrolizumab AND melanoma'' ''melanoma''
     findings_second = (db_after_first_run, Inl (Exception ''database is locked''))"
    using w1 sample_dumps(2) by blast
  have b: "save_research sample_codec ''2025-11-28T09:00:00'' None
     db_after_first_run ''melanoma_workflow_2025'' ''pembrolizumab AND melanoma'' ''melanoma''
     findings_second = (db_after_second_run, Inr 2)"
    using w1 sample_dumps(2) unfolding snd_db nid by blast
  have c: "save_research sample_codec ''2025-11-28T09:00:00'' None
     db_after_first_run ''melanoma_workflow_2025'' ''pembrolizumab AND melanoma'' ''melanoma''
     JNull = (db_after_first_run, Inl (Exception ''TypeError''))"
    using w2 sample_dumps(4) by blast
  have d: "save_doctor_review sample_codec ''2025-11-27T14:32:00'' ''2025-11-27T14:32:01''
     (Some ''database is locked'') db_after_first_run ''melanoma_clinical_review_2025''
     ''approved'' ''Dr. A'' ''ok'' = (db_after_first_run, Inl (Exception ''database is locked''))"
    using w3 rec by blast
  have e: "save_doctor_review sample_codec ''2025-11-27T14:32:00'' ''2025-11-27T14:32:01''
     None db_after_first_run ''melanoma_clinical_review_2025''
     ''approved'' ''Dr. A'' ''ok'' =
     (\<lparr> db_rows = db_rows db_after_first_run @
          [(2, \<lparr> rm_session_id = ''melanoma_clinical_review_2025'',
                 rm_query = ''Physician Review'', rm_cancer_type = ''clinical_decision'',
                 rm_findings = Some text_review, rm_timestamp = ''2025-11-27T14:32:01'' \<rparr>)],
        db_pending = [] \<rparr>, Inr 2)"
    using w3 rec unfolding nid by blast
  show ?thesis
    by (intro conjI, fact pend, fact sample_dumps(2), fact a, fact b, fact sample_dumps(4),
        fact c, fact d, fact e)
qed





end
